theory Spec2Isabelle
  imports Complex_Main "HOL-Library.Word" "HOL-Library.Sublist"
begin

section \<open>The suggestion engine of the editor extension\<close>

text \<open>
  The analysis that the extension runs on a document is the function
  \<^verbatim>\<open>simulateRustAnalysis\<close>: it reads the threshold \<^verbatim>\<open>minimumConfidence\<close> from the
  workspace configuration (default 0.6), splits the document text at line feeds, visits
  every line with its index, pushes one record per matching rule onto an array, and returns
  the array filtered by the threshold. The workspace configuration and the document are the
  only things it reads, so they are the two arguments of the model.
\<close>

subsection \<open>Strings\<close>

text \<open>
  A JavaScript string is a sequence of UTF-16 code units. The string literals of the source
  are ASCII; \<open>lit\<close> embeds them.
\<close>

type_synonym code_unit = "16 word"
type_synonym jsstring = "code_unit list"

definition lit :: "string \<Rightarrow> jsstring" where
  "lit s = map (\<lambda>c. of_nat (of_char c)) s"

definition LF :: code_unit where
  "LF = 0x0A"

text \<open>\<^verbatim>\<open>s.includes(sub)\<close>: \<open>sub\<close> occurs in \<open>s\<close> as a contiguous piece.\<close>

fun includes_js :: "jsstring \<Rightarrow> jsstring \<Rightarrow> bool" where
  "includes_js [] sub = (sub = [])"
| "includes_js (c # s) sub = (prefix sub (c # s) \<or> includes_js s sub)"

text \<open>
  \<^verbatim>\<open>s.replace(pat, rep)\<close> with a string pattern replaces the first occurrence only and
  returns \<open>s\<close> unchanged when there is none. The replacement strings of the source contain
  no dollar sign, so they are inserted as they are.
\<close>

fun replace_js :: "jsstring \<Rightarrow> jsstring \<Rightarrow> jsstring \<Rightarrow> jsstring" where
  "replace_js [] pat rep = (if pat = [] then rep else [])"
| "replace_js (c # s) pat rep =
     (if prefix pat (c # s) then rep @ drop (length pat) (c # s)
      else c # replace_js s pat rep)"

text \<open>
  \<^verbatim>\<open>s.trim()\<close> removes white space and line terminators from both ends: the code units
  below are the ones ECMAScript lists (all of them lie in the basic plane).
\<close>

definition isWhiteSpace :: "code_unit \<Rightarrow> bool" where
  "isWhiteSpace c \<longleftrightarrow>
     c \<in> set [0x09, 0x0A, 0x0B, 0x0C, 0x0D, 0x20, 0xA0, 0x1680,
              0x2028, 0x2029, 0x202F, 0x205F, 0x3000, 0xFEFF]
     \<or> (0x2000 \<le> c \<and> c \<le> 0x200A)"

definition trim_js :: "jsstring \<Rightarrow> jsstring" where
  "trim_js s = rev (dropWhile isWhiteSpace (rev (dropWhile isWhiteSpace s)))"

text \<open>
  \<^verbatim>\<open>s.split(sep)\<close>: the pieces of \<open>s\<close> between the occurrences of \<open>sep\<close>, scanned from
  the left; the empty string gives one empty piece. An empty separator cuts between all
  code units.
\<close>

fun splitFrom :: "jsstring \<Rightarrow> jsstring \<Rightarrow> jsstring \<Rightarrow> jsstring list" where
  "splitFrom sep cur [] = [cur]"
| "splitFrom sep cur (c # s) =
     (if sep \<noteq> [] \<and> prefix sep (c # s)
      then cur # splitFrom sep [] (drop (length sep) (c # s))
      else splitFrom sep (cur @ [c]) s)"

definition split_js :: "jsstring \<Rightarrow> jsstring \<Rightarrow> jsstring list" where
  "split_js s sep = (if sep = [] then map (\<lambda>c. [c]) s else splitFrom sep [] s)"

subsection \<open>Data\<close>

text \<open>The record pushed for a match (the \<^verbatim>\<open>Optimization\<close> typedef of the source).\<close>

record optimization =
  rule_name :: jsstring
  language :: jsstring
  line_number :: nat
  original_code :: jsstring
  suggested_code :: jsstring
  explanation :: jsstring
  severity :: jsstring
  confidence :: real

text \<open>
  The section \<^verbatim>\<open>codeOptimizer\<close> of the workspace configuration. A setting may be absent.
  Numbers are modelled by the reals they denote; a decimal literal stands for its decimal
  value.
\<close>

record configuration =
  enabledRules :: "(jsstring \<rightharpoonup> bool) option"
  minimumConfidence :: "real option"

text \<open>\<^verbatim>\<open>config.get(key, defaultValue)\<close>\<close>

definition config_get :: "'a option \<Rightarrow> 'a \<Rightarrow> 'a" where
  "config_get setting defaultValue = (case setting of None \<Rightarrow> defaultValue | Some v \<Rightarrow> v)"

text \<open>What the analysis reads of a text document.\<close>

record document =
  languageId :: jsstring
  getText :: jsstring

subsection \<open>The analysis\<close>

definition isSupported :: "jsstring \<Rightarrow> bool" where
  "isSupported l \<longleftrightarrow>
     l \<in> set [lit ''javascript'', lit ''typescript'', lit ''python'', lit ''rust'']"

definition push :: "optimization list \<Rightarrow> optimization \<Rightarrow> optimization list" where
  "push optimizations opt = optimizations @ [opt]"

text \<open>
  The body of the callback given to \<^verbatim>\<open>lines.forEach\<close>: it takes the array built so far
  and returns it with the records of this line pushed.
\<close>

definition useConst :: "jsstring \<Rightarrow> nat \<Rightarrow> optimization" where
  "useConst line index =
     \<lparr> rule_name = lit ''use-const'',
       language = lit ''JavaScript'',
       line_number = index + 1,
       original_code = trim_js line,
       suggested_code = replace_js line (lit ''let '') (lit ''const ''),
       explanation = lit ''Use 'const' for variables that never change'',
       severity = lit ''Info'',
       confidence = 0.8 \<rparr>"

definition noConsole :: "jsstring \<Rightarrow> nat \<Rightarrow> optimization" where
  "noConsole line index =
     \<lparr> rule_name = lit ''no-console'',
       language = lit ''JavaScript'',
       line_number = index + 1,
       original_code = trim_js line,
       suggested_code = replace_js line (lit ''console.log('') (lit ''// console.log(''),
       explanation = lit ''Remove console.log statements in production code'',
       severity = lit ''Warning'',
       confidence = 0.9 \<rparr>"

definition useFStrings :: "jsstring \<Rightarrow> nat \<Rightarrow> optimization" where
  "useFStrings line index =
     \<lparr> rule_name = lit ''use-f-strings'',
       language = lit ''Python'',
       line_number = index + 1,
       original_code = trim_js line,
       suggested_code = replace_js line (lit ''.format('') (lit ''f'' @ [0x22]),
       explanation = lit ''Use f-strings instead of .format() for better performance'',
       severity = lit ''Info'',
       confidence = 0.7 \<rparr>"

definition noPrintDebug :: "jsstring \<Rightarrow> nat \<Rightarrow> optimization" where
  "noPrintDebug line index =
     \<lparr> rule_name = lit ''no-print-debug'',
       language = lit ''Python'',
       line_number = index + 1,
       original_code = trim_js line,
       suggested_code = replace_js line (lit ''print('') (lit ''# print(''),
       explanation = lit ''Remove print statements in production code'',
       severity = lit ''Warning'',
       confidence = 0.8 \<rparr>"

definition javascriptBlock ::
  "optimization list \<Rightarrow> jsstring \<Rightarrow> nat \<Rightarrow> optimization list" where
  "javascriptBlock optimizations line index =
     (let o1 = (if includes_js line (lit ''let '') \<and> includes_js line (lit ''='')
                   \<and> \<not> includes_js line (lit ''let i'')
                then push optimizations (useConst line index) else optimizations)
      in if includes_js line (lit ''console.log('')
         then push o1 (noConsole line index) else o1)"

definition pythonBlock ::
  "optimization list \<Rightarrow> jsstring \<Rightarrow> nat \<Rightarrow> optimization list" where
  "pythonBlock optimizations line index =
     (let o1 = (if includes_js line (lit ''.format('')
                then push optimizations (useFStrings line index) else optimizations)
      in if includes_js line (lit ''print('')
         then push o1 (noPrintDebug line index) else o1)"

definition callback ::
  "document \<Rightarrow> optimization list \<Rightarrow> jsstring \<Rightarrow> nat \<Rightarrow> optimization list" where
  "callback doc optimizations line index =
     (let o1 = (if languageId doc = lit ''javascript'' \<or> languageId doc = lit ''typescript''
                then javascriptBlock optimizations line index else optimizations)
      in if languageId doc = lit ''python''
         then pythonBlock o1 line index else o1)"

text \<open>\<^verbatim>\<open>lines.forEach((line, index) => ...)\<close>, from \<open>index\<close> on.\<close>

fun forEach ::
  "document \<Rightarrow> jsstring list \<Rightarrow> nat \<Rightarrow> optimization list \<Rightarrow> optimization list" where
  "forEach doc [] index optimizations = optimizations"
| "forEach doc (line # rest) index optimizations =
     forEach doc rest (index + 1) (callback doc optimizations line index)"

definition simulateRustAnalysis :: "configuration \<Rightarrow> document \<Rightarrow> optimization list" where
  "simulateRustAnalysis config doc =
     (let minConfidence = config_get (minimumConfidence config) 0.6;
          lines = split_js (getText doc) [LF];
          optimizations = forEach doc lines 0 []
      in filter (\<lambda>opt. confidence opt \<ge> minConfidence) optimizations)"

subsection \<open>Notions used to state the properties\<close>

text \<open>The array before the final filter, and what the callback pushes for one line.\<close>

definition candidates :: "document \<Rightarrow> optimization list" where
  "candidates doc = forEach doc (split_js (getText doc) [LF]) 0 []"

definition emitted :: "document \<Rightarrow> jsstring \<Rightarrow> nat \<Rightarrow> optimization list" where
  "emitted doc line index = callback doc [] line index"

text \<open>The guard of the JavaScript block and the condition of its first rule.\<close>

definition isJavaScript :: "document \<Rightarrow> bool" where
  "isJavaScript doc \<longleftrightarrow>
     languageId doc = lit ''javascript'' \<or> languageId doc = lit ''typescript''"

definition useConstMatch :: "jsstring \<Rightarrow> bool" where
  "useConstMatch line \<longleftrightarrow>
     includes_js line (lit ''let '') \<and> includes_js line (lit ''='')
     \<and> \<not> includes_js line (lit ''let i'')"

subsection \<open>Concrete inputs\<close>

text \<open>No setting is present: the threshold is the default 0.6.\<close>

definition defaultConfig :: configuration where
  "defaultConfig = \<lparr> enabledRules = None, minimumConfidence = None \<rparr>"

definition javascriptDoc :: "jsstring \<Rightarrow> document" where
  "javascriptDoc s = \<lparr> languageId = lit ''javascript'', getText = s \<rparr>"

definition scenarioA :: document where
  \<open>scenarioA = javascriptDoc
     (lit ''let userName = "John";'' @ [LF] @ lit ''console.log("Debug:", userName);'')\<close>

definition useConstDisabled :: configuration where
  "useConstDisabled =
     \<lparr> enabledRules = Some [lit ''use-const'' \<mapsto> False], minimumConfidence = None \<rparr>"

definition rustDoc :: document where
  \<open>rustDoc = \<lparr> languageId = lit ''rust'',
       getText = lit ''let b = a.clone();'' @ [LF] @ lit ''println!("{:?}", b);'' \<rparr>\<close>

definition typescriptDoc :: "jsstring \<Rightarrow> document" where
  "typescriptDoc s = \<lparr> languageId = lit ''typescript'', getText = s \<rparr>"

definition pythonDoc :: "jsstring \<Rightarrow> document" where
  "pythonDoc s = \<lparr> languageId = lit ''python'', getText = s \<rparr>"


text \<open>Three lines ending in CR LF; the second is indented by a tab and blanks.\<close>

definition indentedDoc :: document where
  "indentedDoc = javascriptDoc
     (lit ''function f() {'' @ [0x0D, LF] @
      [0x09] @ lit ''  console.log(1);  '' @ [0x0D, LF] @
      lit ''}'')"

subsection \<open>The order of the result\<close>

text \<open>
  The source has no rule table: the order of the rules is the order of their blocks in
  the callback. \<open>precedes\<close> compares two records by line number, then by the position
  of their rule.
\<close>

definition ruleBlocks :: "jsstring list" where
  "ruleBlocks =
     [lit ''use-const'', lit ''no-console'', lit ''use-f-strings'', lit ''no-print-debug'']"

definition registrationIndex :: "jsstring \<Rightarrow> nat" where
  "registrationIndex r = length (takeWhile (\<lambda>x. x \<noteq> r) ruleBlocks)"

definition precedes :: "optimization \<Rightarrow> optimization \<Rightarrow> bool" where
  "precedes a b \<longleftrightarrow>
     line_number a < line_number b
     \<or> (line_number a = line_number b
         \<and> registrationIndex (rule_name a) < registrationIndex (rule_name b))"

section \<open>Properties\<close>

subsection \<open>The loop as a concatenation\<close>

lemma javascriptBlock_append:
  "javascriptBlock optimizations line index = optimizations @ javascriptBlock [] line index"
  by (simp add: javascriptBlock_def push_def Let_def)

lemma pythonBlock_append:
  "pythonBlock optimizations line index = optimizations @ pythonBlock [] line index"
  by (simp add: pythonBlock_def push_def Let_def)

lemma callback_append:
  "callback doc optimizations line index = optimizations @ emitted doc line index"
  unfolding callback_def emitted_def Let_def
  using javascriptBlock_append [of optimizations line index]
    pythonBlock_append [of optimizations line index]
    pythonBlock_append [of "javascriptBlock optimizations line index" line index]
    pythonBlock_append [of "javascriptBlock [] line index" line index]
  by simp

lemma forEach_append:
  "forEach doc lines index optimizations = optimizations @ forEach doc lines index []"
proof (induction lines arbitrary: index optimizations)
  case Nil
  show ?case by simp
next
  case (Cons line rest)
  have "forEach doc (line # rest) index optimizations =
        forEach doc rest (index + 1) (optimizations @ emitted doc line index)"
    by (simp add: callback_append [of doc optimizations])
  also have "\<dots> = (optimizations @ emitted doc line index) @ forEach doc rest (index + 1) []"
    by (rule Cons.IH)
  also have "\<dots> = optimizations @ forEach doc rest (index + 1) (emitted doc line index)"
    using Cons.IH [of "index + 1" "emitted doc line index"] by simp
  finally show ?case by (simp add: emitted_def)
qed

lemma forEach_Cons:
  "forEach doc (line # rest) index [] = emitted doc line index @ forEach doc rest (Suc index) []"
  using forEach_append [of doc rest "Suc index" "emitted doc line index"]
  by (simp add: emitted_def)

lemma set_forEach:
  "set (forEach doc lines index []) =
     (\<Union>k \<in> {..<length lines}. set (emitted doc (lines ! k) (index + k)))"
proof (induction lines arbitrary: index)
  case Nil
  show ?case by simp
next
  case (Cons line rest)
  have "(\<Union>k \<in> {..<Suc (length rest)}. set (emitted doc ((line # rest) ! k) (index + k))) =
        set (emitted doc line index) \<union>
        (\<Union>k \<in> {..<length rest}. set (emitted doc (rest ! k) (Suc index + k)))"
    by (simp add: lessThan_Suc_eq_insert_0 image_image)
  then show ?case
    by (simp add: forEach_Cons Cons.IH del: forEach.simps)
qed

lemma simulateRustAnalysis_filter:
  "simulateRustAnalysis config doc =
     filter (\<lambda>opt. config_get (minimumConfidence config) 0.6 \<le> confidence opt) (candidates doc)"
  by (simp add: simulateRustAnalysis_def candidates_def Let_def)

subsection \<open>What one line contributes\<close>

lemma python_not_javascript:
  "lit ''python'' \<noteq> lit ''javascript''" "lit ''python'' \<noteq> lit ''typescript''"
  by (simp_all add: lit_def)

lemma emitted_javascript:
  "isJavaScript doc \<Longrightarrow> emitted doc line index =
     (if useConstMatch line then [useConst line index] else []) @
     (if includes_js line (lit ''console.log('') then [noConsole line index] else [])"
  unfolding isJavaScript_def emitted_def callback_def javascriptBlock_def push_def Let_def
    useConstMatch_def
  using python_not_javascript by auto

lemma emitted_python:
  "languageId doc = lit ''python'' \<Longrightarrow> emitted doc line index =
     (if includes_js line (lit ''.format('') then [useFStrings line index] else []) @
     (if includes_js line (lit ''print('') then [noPrintDebug line index] else [])"
  unfolding emitted_def callback_def pythonBlock_def push_def Let_def
  using python_not_javascript by auto

lemma emitted_other:
  "\<not> isJavaScript doc \<Longrightarrow> languageId doc \<noteq> lit ''python'' \<Longrightarrow> emitted doc line index = []"
  unfolding isJavaScript_def emitted_def callback_def Let_def by simp

lemma emitted_cases:
  assumes "opt \<in> set (emitted doc line index)"
  shows "opt = useConst line index \<or> opt = noConsole line index
       \<or> opt = useFStrings line index \<or> opt = noPrintDebug line index"
proof (cases "isJavaScript doc")
  case True
  with assms show ?thesis by (auto simp: emitted_javascript split: if_splits)
next
  case False
  show ?thesis
  proof (cases "languageId doc = lit ''python''")
    case True
    with assms show ?thesis by (auto simp: emitted_python split: if_splits)
  next
    case False
    with \<open>\<not> isJavaScript doc\<close> assms show ?thesis by (simp add: emitted_other)
  qed
qed

lemma emitted_line_number:
  "opt \<in> set (emitted doc line index) \<Longrightarrow> line_number opt = index + 1"
  by (drule emitted_cases) (auto simp: useConst_def noConsole_def useFStrings_def noPrintDebug_def)

lemma emitted_original_code:
  "opt \<in> set (emitted doc line index) \<Longrightarrow> original_code opt = trim_js line"
  by (drule emitted_cases) (auto simp: useConst_def noConsole_def useFStrings_def noPrintDebug_def)

lemma emitted_confidence:
  "opt \<in> set (emitted doc line index) \<Longrightarrow> confidence opt \<in> {0.7, 0.8, 0.9}"
  by (drule emitted_cases) (auto simp: useConst_def noConsole_def useFStrings_def noPrintDebug_def)

lemma candidates_line:
  assumes "opt \<in> set (candidates doc)"
  obtains k where "k < length (split_js (getText doc) [LF])"
    and "opt \<in> set (emitted doc (split_js (getText doc) [LF] ! k) k)"
  using assms by (auto simp: candidates_def set_forEach)

lemma candidates_confidence:
  "opt \<in> set (candidates doc) \<Longrightarrow> confidence opt \<in> {0.7, 0.8, 0.9}"
  by (erule candidates_line) (rule emitted_confidence)

lemma includes_js_sublist: "includes_js s sub \<longleftrightarrow> sublist sub s"
  by (induction s) (simp_all add: sublist_Cons_right)

lemma includes_js_iff: "includes_js s sub \<longleftrightarrow> (\<exists>pre post. s = pre @ sub @ post)"
  by (simp add: includes_js_sublist sublist_def)

subsection \<open>Running the analysis on concrete documents\<close>

lemmas run_defs =
  simulateRustAnalysis_def split_js_def LF_def config_get_def callback_def
  javascriptBlock_def pythonBlock_def push_def lit_def javascriptDoc_def
  typescriptDoc_def pythonDoc_def

lemma scenarioA_run:
  \<open>simulateRustAnalysis \<lparr> enabledRules = e, minimumConfidence = None \<rparr> scenarioA =
     [useConst (lit ''let userName = "John";'') 0,
      noConsole (lit ''console.log("Debug:", userName);'') 1]\<close>
  by (simp add: run_defs scenarioA_def useConst_def noConsole_def)

text \<open>The Python block on a two-line document, and the empty text.\<close>

lemma scenarioC_run:
  "map (\<lambda>opt. (line_number opt, rule_name opt, confidence opt))
     (simulateRustAnalysis defaultConfig
        (pythonDoc (lit ''msg = 'hi {}'.format(name)'' @ [LF] @ lit ''print(msg)''))) =
   [(1, lit ''use-f-strings'', 0.7), (2, lit ''no-print-debug'', 0.8)]"
  by (simp add: run_defs defaultConfig_def useFStrings_def noPrintDebug_def)

lemma empty_text_run:
  "split_js [] [LF] = [[]]"
  "simulateRustAnalysis config \<lparr> languageId = l, getText = [] \<rparr> = []"
  by (simp_all add: run_defs)

subsection \<open>Scenario A\<close>

text \<open>
  C1. The JavaScript document
  \<^verbatim>\<open>let userName = "John";\<close> / \<^verbatim>\<open>console.log("Debug:", userName);\<close>
  analysed with no setting present (threshold 0.6, and the same with the threshold set to
  0.6) gives exactly two records, in this order: line 1 with rule \<^verbatim>\<open>use-const\<close> and
  confidence 0.8, then line 2 with rule \<^verbatim>\<open>no-console\<close> and confidence 0.9.
\<close>

theorem scenario_A:
  "map (\<lambda>opt. (line_number opt, rule_name opt, confidence opt))
       (simulateRustAnalysis defaultConfig scenarioA) =
     [(1, lit ''use-const'', 0.8), (2, lit ''no-console'', 0.9)]
   \<and> simulateRustAnalysis (defaultConfig\<lparr>minimumConfidence := Some 0.6\<rparr>) scenarioA =
     simulateRustAnalysis defaultConfig scenarioA"
  by (simp add: run_defs scenarioA_def defaultConfig_def useConst_def noConsole_def)

subsection \<open>Rule toggles\<close>

text \<open>
  The setting \<^verbatim>\<open>enabledRules\<close> exists and the configuration command displays it, but
  the analysis never reads it: whatever it is set to, the result is the same.
\<close>

lemma enabledRules_ignored:
  "simulateRustAnalysis (config\<lparr>enabledRules := e\<rparr>) doc = simulateRustAnalysis config doc"
  by (simp add: simulateRustAnalysis_def)

text \<open>
  C2. A rule switched off in \<^verbatim>\<open>enabledRules\<close> should give no record. The analysis
  does not honour the toggle: with \<^verbatim>\<open>enabledRules = {"use-const": false}\<close> the
  document of scenario A still gets its \<^verbatim>\<open>use-const\<close> record, before the
  \<^verbatim>\<open>no-console\<close> one.
\<close>

theorem disabled_rule_still_reported:
  "enabledRules useConstDisabled = Some [lit ''use-const'' \<mapsto> False]
   \<and> map rule_name (simulateRustAnalysis useConstDisabled scenarioA) =
       [lit ''use-const'', lit ''no-console'']"
  by (simp add: useConstDisabled_def scenarioA_run useConst_def noConsole_def)

subsection \<open>Rust documents\<close>

text \<open>No block of the callback applies to a Rust document, whatever its text.\<close>

lemma rust_never_flagged:
  assumes "languageId doc = lit ''rust''"
  shows "simulateRustAnalysis config doc = []"
proof -
  have "lit ''rust'' \<noteq> lit ''javascript''" "lit ''rust'' \<noteq> lit ''typescript''"
    "lit ''rust'' \<noteq> lit ''python''"
    by (simp_all add: lit_def)
  with assms have "emitted doc line index = []" for line index
    by (simp add: emitted_other isJavaScript_def)
  then have "set (candidates doc) = {}"
    by (simp add: candidates_def set_forEach)
  then show ?thesis
    by (simp add: simulateRustAnalysis_filter)
qed

text \<open>
  C3. \<^verbatim>\<open>rust\<close> is a supported language identifier, but the callback has a block for
  JavaScript/TypeScript and one for Python only: a Rust document with a \<^verbatim>\<open>.clone()\<close>
  call and a \<^verbatim>\<open>println!\<close> gets no record, even with the threshold at 0.
\<close>

theorem rust_document_yields_nothing:
  "isSupported (languageId rustDoc)
   \<and> simulateRustAnalysis (defaultConfig\<lparr>minimumConfidence := Some 0\<rparr>) rustDoc = []"
  by (simp add: run_defs rustDoc_def defaultConfig_def isSupported_def)

subsection \<open>When \<^verbatim>\<open>use-const\<close> fires\<close>

lemma rule_names_differ:
  "lit ''no-console'' \<noteq> lit ''use-const''"
  "lit ''use-f-strings'' \<noteq> lit ''use-const''"
  "lit ''no-print-debug'' \<noteq> lit ''use-const''"
  by (simp_all add: lit_def)

lemma use_const_in_emitted:
  "(\<exists>opt \<in> set (emitted doc line index). rule_name opt = lit ''use-const'') \<longleftrightarrow>
     isJavaScript doc \<and> useConstMatch line"
proof (cases "isJavaScript doc")
  case True
  then show ?thesis
    using rule_names_differ by (auto simp: emitted_javascript useConst_def noConsole_def)
next
  case False
  show ?thesis
  proof (cases "languageId doc = lit ''python''")
    case True
    with False show ?thesis
      using rule_names_differ
      by (auto simp: emitted_python useFStrings_def noPrintDebug_def)
  next
    case False
    with \<open>\<not> isJavaScript doc\<close> show ?thesis by (simp add: emitted_other)
  qed
qed

lemma use_const_confidence:
  assumes "opt \<in> set (emitted doc line index)" and "rule_name opt = lit ''use-const''"
  shows "confidence opt = 0.8"
  using emitted_cases [OF assms(1)] assms(2) rule_names_differ
  by (auto simp: useConst_def noConsole_def useFStrings_def noPrintDebug_def)

lemma use_const_kept:
  assumes "opt \<in> set (simulateRustAnalysis config doc)"
    and "rule_name opt = lit ''use-const''"
  obtains k where "line_number opt = k + 1" and "k < length (split_js (getText doc) [LF])"
    and "isJavaScript doc" and "useConstMatch (split_js (getText doc) [LF] ! k)"
    and "config_get (minimumConfidence config) 0.6 \<le> 0.8"
proof -
  from assms(1) have cand: "opt \<in> set (candidates doc)"
    and conf: "config_get (minimumConfidence config) 0.6 \<le> confidence opt"
    by (simp_all add: simulateRustAnalysis_filter)
  from cand obtain k where k: "k < length (split_js (getText doc) [LF])"
    and em: "opt \<in> set (emitted doc (split_js (getText doc) [LF] ! k) k)"
    by (rule candidates_line)
  from em have "line_number opt = k + 1" by (rule emitted_line_number)
  moreover from em assms(2)
  have "isJavaScript doc \<and> useConstMatch (split_js (getText doc) [LF] ! k)"
    using use_const_in_emitted by blast
  moreover from em assms(2) conf have "config_get (minimumConfidence config) 0.6 \<le> 0.8"
    by (simp add: use_const_confidence)
  ultimately show thesis using k that by blast
qed





text \<open>
  C9. A line that contains \<^verbatim>\<open>let i\<close> never gets a \<^verbatim>\<open>use-const\<close> record, in any
  document and under any configuration. So \<^verbatim>\<open>let index = 0;\<close> and
  \<^verbatim>\<open>let items = [];\<close> get none, while \<^verbatim>\<open>let count = 0;\<close> gets one.
\<close>

theorem let_i_suppresses_use_const:
  assumes "split_js (getText doc) [LF] ! k = pre @ lit ''let i'' @ post"
  shows "\<not> (\<exists>opt \<in> set (simulateRustAnalysis config doc).
             rule_name opt = lit ''use-const'' \<and> line_number opt = k + 1)
       \<and> simulateRustAnalysis defaultConfig (javascriptDoc (lit ''let index = 0;'')) = []
       \<and> simulateRustAnalysis defaultConfig (javascriptDoc (lit ''let items = [];'')) = []
       \<and> map rule_name (simulateRustAnalysis defaultConfig (javascriptDoc (lit ''let count = 0;'')))
           = [lit ''use-const'']"
proof -
  have here: "includes_js (split_js (getText doc) [LF] ! k) (lit ''let i'')"
    using assms by (auto simp: includes_js_iff)
  have "\<not> (\<exists>opt \<in> set (simulateRustAnalysis config doc).
             rule_name opt = lit ''use-const'' \<and> line_number opt = k + 1)"
  proof
    assume "\<exists>opt \<in> set (simulateRustAnalysis config doc).
             rule_name opt = lit ''use-const'' \<and> line_number opt = k + 1"
    then obtain opt where kept: "opt \<in> set (simulateRustAnalysis config doc)"
      and name: "rule_name opt = lit ''use-const''" and line: "line_number opt = k + 1"
      by blast
    from kept name obtain k' where "line_number opt = k' + 1"
      and "useConstMatch (split_js (getText doc) [LF] ! k')"
      by (rule use_const_kept)
    with line have "useConstMatch (split_js (getText doc) [LF] ! k)" by simp
    with here show False by (simp add: useConstMatch_def)
  qed
  moreover have "simulateRustAnalysis defaultConfig (javascriptDoc (lit ''let index = 0;'')) = []"
    by (simp add: run_defs defaultConfig_def)
  moreover have "simulateRustAnalysis defaultConfig (javascriptDoc (lit ''let items = [];'')) = []"
    by (simp add: run_defs defaultConfig_def)
  moreover have
    "map rule_name (simulateRustAnalysis defaultConfig (javascriptDoc (lit ''let count = 0;'')))
       = [lit ''use-const'']"
    by (simp add: run_defs defaultConfig_def useConst_def)
  ultimately show ?thesis by blast
qed

theorem let_i_suppresses_use_const_witness:
  "split_js (getText (javascriptDoc (lit ''let index = 0;''))) [LF] ! 0
     = [] @ lit ''let i'' @ lit ''ndex = 0;''
   \<and> \<not> (\<exists>opt \<in> set (simulateRustAnalysis defaultConfig (javascriptDoc (lit ''let index = 0;''))).
             rule_name opt = lit ''use-const'' \<and> line_number opt = 1)"
proof -
  have line: "split_js (getText (javascriptDoc (lit ''let index = 0;''))) [LF] ! 0
     = [] @ lit ''let i'' @ lit ''ndex = 0;''"
    by (simp add: run_defs)
  from let_i_suppresses_use_const [OF line, of defaultConfig] line show ?thesis by simp
qed

subsection \<open>The threshold\<close>

text \<open>
  C5. Raising the threshold never adds a record: for \<open>t1 \<le> t2\<close> the result at \<open>t2\<close> is
  the result at \<open>t1\<close> filtered once more, hence a subset of it; and a record is in the
  result exactly when the loop pushed it and its confidence is at least the threshold.
\<close>

theorem threshold_monotone:
  assumes "t1 \<le> t2"
  shows "set (simulateRustAnalysis (config\<lparr>minimumConfidence := Some t2\<rparr>) doc)
           \<subseteq> set (simulateRustAnalysis (config\<lparr>minimumConfidence := Some t1\<rparr>) doc)
         \<and> simulateRustAnalysis (config\<lparr>minimumConfidence := Some t2\<rparr>) doc =
             filter (\<lambda>opt. confidence opt \<ge> t2)
               (simulateRustAnalysis (config\<lparr>minimumConfidence := Some t1\<rparr>) doc)
         \<and> (\<forall>opt. opt \<in> set (simulateRustAnalysis config doc) \<longleftrightarrow>
               opt \<in> set (candidates doc)
               \<and> confidence opt \<ge> config_get (minimumConfidence config) 0.6)"
proof -
  have both: "(t1 \<le> confidence opt \<and> t2 \<le> confidence opt) = (t2 \<le> confidence opt)" for opt
    using assms by auto
  have eq: "simulateRustAnalysis (config\<lparr>minimumConfidence := Some t2\<rparr>) doc =
      filter (\<lambda>opt. confidence opt \<ge> t2)
        (simulateRustAnalysis (config\<lparr>minimumConfidence := Some t1\<rparr>) doc)"
    by (simp add: simulateRustAnalysis_filter config_get_def both)
  have "set (simulateRustAnalysis (config\<lparr>minimumConfidence := Some t2\<rparr>) doc)
           \<subseteq> set (simulateRustAnalysis (config\<lparr>minimumConfidence := Some t1\<rparr>) doc)"
    by (subst eq) (rule filter_is_subset)
  moreover have "\<forall>opt. opt \<in> set (simulateRustAnalysis config doc) \<longleftrightarrow>
               opt \<in> set (candidates doc)
               \<and> confidence opt \<ge> config_get (minimumConfidence config) 0.6"
    by (simp add: simulateRustAnalysis_filter)
  ultimately show ?thesis using eq by blast
qed

text \<open>Scenario A at the thresholds 0.6 and 0.85: the second drops \<^verbatim>\<open>use-const\<close>.\<close>

theorem threshold_monotone_witness:
  "(0.6::real) \<le> 0.85
   \<and> map rule_name
        (simulateRustAnalysis (defaultConfig\<lparr>minimumConfidence := Some 0.6\<rparr>) scenarioA) =
       [lit ''use-const'', lit ''no-console'']
   \<and> map rule_name
        (simulateRustAnalysis (defaultConfig\<lparr>minimumConfidence := Some 0.85\<rparr>) scenarioA) =
       [lit ''no-console'']
   \<and> set (simulateRustAnalysis (defaultConfig\<lparr>minimumConfidence := Some 0.85\<rparr>) scenarioA)
       \<subseteq> set (simulateRustAnalysis (defaultConfig\<lparr>minimumConfidence := Some 0.6\<rparr>) scenarioA)"
proof -
  have le: "(0.6::real) \<le> 0.85" by simp
  have a: "map rule_name
        (simulateRustAnalysis (defaultConfig\<lparr>minimumConfidence := Some 0.6\<rparr>) scenarioA) =
       [lit ''use-const'', lit ''no-console'']"
    by (simp add: run_defs scenarioA_def defaultConfig_def useConst_def noConsole_def)
  have b: "map rule_name
        (simulateRustAnalysis (defaultConfig\<lparr>minimumConfidence := Some 0.85\<rparr>) scenarioA) =
       [lit ''no-console'']"
    by (simp add: run_defs scenarioA_def defaultConfig_def useConst_def noConsole_def)
  from threshold_monotone [OF le, of defaultConfig scenarioA] le a b show ?thesis by blast
qed

text \<open>
  C6. The analysis is a total function of the configuration and the document: no threshold
  makes it fail. The source compares with the threshold as it is; since every record has
  confidence 0.7, 0.8 or 0.9, the result is the one obtained with the threshold clamped to
  the interval from 0 to 1.
\<close>

theorem threshold_clamped:
  "simulateRustAnalysis (config\<lparr>minimumConfidence := Some t\<rparr>) doc =
   simulateRustAnalysis (config\<lparr>minimumConfidence := Some (max 0 (min 1 t))\<rparr>) doc"
proof -
  have "(t \<le> confidence opt) = (max 0 (min 1 t) \<le> confidence opt)"
    if "opt \<in> set (candidates doc)" for opt
    using candidates_confidence [OF that] by auto
  then show ?thesis
    by (simp add: simulateRustAnalysis_filter config_get_def cong: filter_cong)
qed

text \<open>Thresholds \<open>-1\<close> and \<open>7\<close> on scenario A: everything is kept, nothing is kept.\<close>

theorem threshold_clamped_witness:
  "map rule_name
     (simulateRustAnalysis (defaultConfig\<lparr>minimumConfidence := Some (- 1)\<rparr>) scenarioA) =
     [lit ''use-const'', lit ''no-console'']
   \<and> simulateRustAnalysis (defaultConfig\<lparr>minimumConfidence := Some (- 1)\<rparr>) scenarioA =
       simulateRustAnalysis (defaultConfig\<lparr>minimumConfidence := Some 0\<rparr>) scenarioA
   \<and> simulateRustAnalysis (defaultConfig\<lparr>minimumConfidence := Some 7\<rparr>) scenarioA = []
   \<and> simulateRustAnalysis (defaultConfig\<lparr>minimumConfidence := Some 7\<rparr>) scenarioA =
       simulateRustAnalysis (defaultConfig\<lparr>minimumConfidence := Some 1\<rparr>) scenarioA"
proof -
  have a: "map rule_name
     (simulateRustAnalysis (defaultConfig\<lparr>minimumConfidence := Some (- 1)\<rparr>) scenarioA) =
     [lit ''use-const'', lit ''no-console'']"
    by (simp add: run_defs scenarioA_def defaultConfig_def useConst_def noConsole_def)
  have b: "simulateRustAnalysis (defaultConfig\<lparr>minimumConfidence := Some 7\<rparr>) scenarioA = []"
    by (simp add: run_defs scenarioA_def defaultConfig_def useConst_def noConsole_def)
  from threshold_clamped [where config = defaultConfig and t = "- 1" and doc = scenarioA]
    threshold_clamped [where config = defaultConfig and t = 7 and doc = scenarioA] a b
  show ?thesis by simp
qed

subsection \<open>Order of the result\<close>

lemma registrationIndex_values:
  "registrationIndex (lit ''use-const'') = 0"
  "registrationIndex (lit ''no-console'') = 1"
  "registrationIndex (lit ''use-f-strings'') = 2"
  "registrationIndex (lit ''no-print-debug'') = 3"
  by (simp_all add: registrationIndex_def ruleBlocks_def lit_def)

lemma precedes_strict_order:
  "\<not> precedes a a" "precedes a b \<Longrightarrow> precedes b c \<Longrightarrow> precedes a c"
  by (auto simp: precedes_def)

lemma precedes_keys_differ:
  "precedes a b \<Longrightarrow> (line_number a, rule_name a) \<noteq> (line_number b, rule_name b)"
  by (auto simp: precedes_def)

lemma sorted_wrt_distinct_keys:
  assumes "sorted_wrt P xs" and "\<And>x y. P x y \<Longrightarrow> f x \<noteq> f y"
  shows "distinct (map f xs)"
  using assms by (induction xs) auto

lemma sorted_emitted: "sorted_wrt precedes (emitted doc line index)"
proof (cases "isJavaScript doc")
  case True
  then show ?thesis
    by (simp add: emitted_javascript precedes_def useConst_def noConsole_def
        registrationIndex_values)
next
  case False
  show ?thesis
  proof (cases "languageId doc = lit ''python''")
    case True
    then show ?thesis
      by (simp add: emitted_python precedes_def useFStrings_def noPrintDebug_def
          registrationIndex_values)
  next
    case False
    with \<open>\<not> isJavaScript doc\<close> show ?thesis by (simp add: emitted_other)
  qed
qed

lemma forEach_line_number:
  assumes "opt \<in> set (forEach doc lines index [])"
  shows "index < line_number opt"
proof -
  from assms obtain k where "opt \<in> set (emitted doc (lines ! k) (index + k))"
    by (auto simp: set_forEach)
  then show ?thesis by (simp add: emitted_line_number)
qed

lemma sorted_forEach: "sorted_wrt precedes (forEach doc lines index [])"
proof (induction lines arbitrary: index)
  case Nil
  show ?case by simp
next
  case (Cons line rest)
  have "precedes a b"
    if "a \<in> set (emitted doc line index)" and "b \<in> set (forEach doc rest (Suc index) [])"
    for a b
    using emitted_line_number [OF that(1)] forEach_line_number [OF that(2)]
    by (simp add: precedes_def)
  then show ?case
    by (simp add: forEach_Cons sorted_wrt_append sorted_emitted Cons.IH del: forEach.simps)
qed

lemma sorted_simulateRustAnalysis: "sorted_wrt precedes (simulateRustAnalysis config doc)"
  by (simp add: simulateRustAnalysis_filter candidates_def sorted_wrt_filter sorted_forEach)

text \<open>
  C7. The result is sorted by line number, and on one line by the order of the rules in
  the callback: every record precedes every later one in the strict order \<open>precedes\<close>,
  so no two records share line and rule. The result is determined by the threshold
  setting, the language identifier and the text: equal inputs give the same list.
\<close>

theorem output_order_deterministic:
  assumes "minimumConfidence config = minimumConfidence config'"
    and "languageId doc = languageId doc'" and "getText doc = getText doc'"
  shows "sorted_wrt precedes (simulateRustAnalysis config doc)
       \<and> distinct (map (\<lambda>opt. (line_number opt, rule_name opt))
                       (simulateRustAnalysis config doc))
       \<and> simulateRustAnalysis config' doc' = simulateRustAnalysis config doc"
proof -
  have sorted: "sorted_wrt precedes (simulateRustAnalysis config doc)"
    by (rule sorted_simulateRustAnalysis)
  then have "distinct (map (\<lambda>opt. (line_number opt, rule_name opt))
                          (simulateRustAnalysis config doc))"
    by (rule sorted_wrt_distinct_keys) (rule precedes_keys_differ)
  moreover have "emitted doc' = emitted doc"
    using assms(2) by (simp add: emitted_def callback_def fun_eq_iff)
  then have "forEach doc' lines index [] = forEach doc lines index []" for lines index
    by (induction lines arbitrary: index) (simp_all add: forEach_Cons del: forEach.simps(2))
  then have "simulateRustAnalysis config' doc' = simulateRustAnalysis config doc"
    using assms(1,3) by (simp add: simulateRustAnalysis_def)
  ultimately show ?thesis using sorted by simp
qed

theorem output_order_deterministic_witness:
  "minimumConfidence useConstDisabled = minimumConfidence defaultConfig
   \<and> sorted_wrt precedes (simulateRustAnalysis useConstDisabled scenarioA)
   \<and> simulateRustAnalysis defaultConfig scenarioA =
       simulateRustAnalysis useConstDisabled scenarioA
   \<and> map line_number (simulateRustAnalysis useConstDisabled scenarioA) = [1, 2]"
proof -
  have c: "minimumConfidence useConstDisabled = minimumConfidence defaultConfig"
    by (simp add: useConstDisabled_def defaultConfig_def)
  have "map line_number (simulateRustAnalysis useConstDisabled scenarioA) = [1, 2]"
    by (simp add: useConstDisabled_def scenarioA_run useConst_def noConsole_def)
  with c output_order_deterministic [OF c refl refl, of scenarioA] show ?thesis by simp
qed

subsection \<open>Line fidelity\<close>

text \<open>
  C8. Every record of the result has a line number between 1 and the number of lines of
  the text, its \<^verbatim>\<open>original_code\<close> is that line trimmed, and its confidence lies between
  0 and 1.
\<close>

theorem line_fidelity:
  assumes "opt \<in> set (simulateRustAnalysis config doc)"
  shows "1 \<le> line_number opt
       \<and> line_number opt \<le> length (split_js (getText doc) [LF])
       \<and> original_code opt = trim_js (split_js (getText doc) [LF] ! (line_number opt - 1))
       \<and> 0 \<le> confidence opt \<and> confidence opt \<le> 1"
proof -
  from assms have "opt \<in> set (candidates doc)"
    by (simp add: simulateRustAnalysis_filter)
  then obtain k where k: "k < length (split_js (getText doc) [LF])"
    and em: "opt \<in> set (emitted doc (split_js (getText doc) [LF] ! k) k)"
    by (rule candidates_line)
  from em have "line_number opt = k + 1"
    and "original_code opt = trim_js (split_js (getText doc) [LF] ! k)"
    by (simp_all add: emitted_line_number emitted_original_code)
  moreover from em have "confidence opt \<in> {0.7, 0.8, 0.9}"
    by (rule emitted_confidence)
  ultimately show ?thesis using k by auto
qed

lemma indentedDoc_run:
  "simulateRustAnalysis defaultConfig indentedDoc =
     [noConsole ([0x09] @ lit ''  console.log(1);  '' @ [0x0D]) 1]"
  by (simp add: run_defs indentedDoc_def defaultConfig_def useConst_def noConsole_def)

theorem line_fidelity_witness:
  "hd (simulateRustAnalysis defaultConfig indentedDoc)
     \<in> set (simulateRustAnalysis defaultConfig indentedDoc)
   \<and> length (split_js (getText indentedDoc) [LF]) = 3
   \<and> line_number (hd (simulateRustAnalysis defaultConfig indentedDoc)) = 2
   \<and> original_code (hd (simulateRustAnalysis defaultConfig indentedDoc)) = lit ''console.log(1);''
   \<and> trim_js (split_js (getText indentedDoc) [LF] ! 1) = lit ''console.log(1);''
   \<and> confidence (hd (simulateRustAnalysis defaultConfig indentedDoc)) = 0.9"
proof -
  have mem: "hd (simulateRustAnalysis defaultConfig indentedDoc)
     \<in> set (simulateRustAnalysis defaultConfig indentedDoc)"
    by (simp add: indentedDoc_run)
  have len: "length (split_js (getText indentedDoc) [LF]) = 3"
    by (simp add: run_defs indentedDoc_def)
  have ln: "line_number (hd (simulateRustAnalysis defaultConfig indentedDoc)) = 2"
    by (simp add: indentedDoc_run noConsole_def)
  have cf: "confidence (hd (simulateRustAnalysis defaultConfig indentedDoc)) = 0.9"
    by (simp add: indentedDoc_run noConsole_def)
  have tr: "trim_js (split_js (getText indentedDoc) [LF] ! 1) = lit ''console.log(1);''"
    by (simp add: run_defs indentedDoc_def trim_js_def isWhiteSpace_def)
  from line_fidelity [OF mem] mem len ln cf tr show ?thesis by simp
qed

subsection \<open>The language field\<close>

lemma language_names_differ: "lit ''JavaScript'' \<noteq> lit ''TypeScript''"
  by (simp add: lit_def)

lemma typescript_is_javascript: "languageId doc = lit ''typescript'' \<Longrightarrow> isJavaScript doc"
  by (simp add: isJavaScript_def)

text \<open>
  C10. The language field of a record is fixed by its rule: \<^verbatim>\<open>JavaScript\<close> for
  \<^verbatim>\<open>use-const\<close> and \<^verbatim>\<open>no-console\<close>, \<^verbatim>\<open>Python\<close> for the two Python rules. So every
  record of a TypeScript document is a \<^verbatim>\<open>use-const\<close> or \<^verbatim>\<open>no-console\<close> record whose
  language is \<^verbatim>\<open>JavaScript\<close>, not \<^verbatim>\<open>TypeScript\<close>.
\<close>

theorem typescript_language_field:
  assumes "opt \<in> set (simulateRustAnalysis config doc)"
  shows "(rule_name opt, language opt) \<in>
           set [(lit ''use-const'', lit ''JavaScript''), (lit ''no-console'', lit ''JavaScript''),
                (lit ''use-f-strings'', lit ''Python''), (lit ''no-print-debug'', lit ''Python'')]
       \<and> (languageId doc = lit ''typescript'' \<longrightarrow>
            (rule_name opt = lit ''use-const'' \<or> rule_name opt = lit ''no-console'')
            \<and> language opt = lit ''JavaScript'' \<and> language opt \<noteq> lit ''TypeScript'')"
proof -
  from assms have "opt \<in> set (candidates doc)"
    by (simp add: simulateRustAnalysis_filter)
  then obtain k where em: "opt \<in> set (emitted doc (split_js (getText doc) [LF] ! k) k)"
    by (rule candidates_line)
  from emitted_cases [OF em]
  have "(rule_name opt, language opt) \<in>
           set [(lit ''use-const'', lit ''JavaScript''), (lit ''no-console'', lit ''JavaScript''),
                (lit ''use-f-strings'', lit ''Python''), (lit ''no-print-debug'', lit ''Python'')]"
    by (auto simp: useConst_def noConsole_def useFStrings_def noPrintDebug_def)
  moreover have "(rule_name opt = lit ''use-const'' \<or> rule_name opt = lit ''no-console'')
            \<and> language opt = lit ''JavaScript'' \<and> language opt \<noteq> lit ''TypeScript''"
    if "languageId doc = lit ''typescript''"
    using em typescript_is_javascript [OF that] language_names_differ
    by (auto simp: emitted_javascript useConst_def noConsole_def split: if_splits)
  ultimately show ?thesis by blast
qed

theorem typescript_language_field_witness:
  "languageId (typescriptDoc (getText scenarioA)) = lit ''typescript''
   \<and> map language (simulateRustAnalysis defaultConfig (typescriptDoc (getText scenarioA)))
       = [lit ''JavaScript'', lit ''JavaScript'']
   \<and> language (hd (simulateRustAnalysis defaultConfig (typescriptDoc (getText scenarioA))))
       \<noteq> lit ''TypeScript''"
proof -
  have run: "simulateRustAnalysis defaultConfig (typescriptDoc (getText scenarioA)) =
     [useConst (lit ''let userName = \"John\";'') 0,
      noConsole (lit ''console.log(\"Debug:\", userName);'') 1]"
    by (simp add: run_defs scenarioA_def defaultConfig_def useConst_def noConsole_def)
  have mem: "hd (simulateRustAnalysis defaultConfig (typescriptDoc (getText scenarioA)))
     \<in> set (simulateRustAnalysis defaultConfig (typescriptDoc (getText scenarioA)))"
    by (simp add: run)
  have ts: "languageId (typescriptDoc (getText scenarioA)) = lit ''typescript''"
    by (simp add: typescriptDoc_def)
  have langs: "map language (simulateRustAnalysis defaultConfig (typescriptDoc (getText scenarioA)))
       = [lit ''JavaScript'', lit ''JavaScript'']"
    by (simp add: run useConst_def noConsole_def)
  from typescript_language_field [OF mem] ts
  have "language (hd (simulateRustAnalysis defaultConfig (typescriptDoc (getText scenarioA))))
       \<noteq> lit ''TypeScript''"
    by blast
  with ts langs show ?thesis by blast
qed

end
